theory Spec2Isabelle
  imports Main
begin

section \<open>Python values used by \<open>pubmed.py\<close>\<close>

text \<open>
  A Python \<open>str\<close> is modelled as a \<open>string\<close>, each \<open>char\<close> standing for one code point
  below 256. A dict whose values are all strings is an association list read with
  \<open>map_of\<close>; \<open>k in d\<close> is \<open>map_of d k \<noteq> None\<close>. An exception is a value of \<open>error\<close>,
  returned on the left of a sum.
\<close>

datatype error = KeyError string | OSError string

type_synonym str_dict = "(string \<times> string) list"

definition dict_get :: "str_dict \<Rightarrow> string \<Rightarrow> string \<Rightarrow> string" where
  \<comment> \<open>\<open>d.get(k, default)\<close>\<close>
  "dict_get d k dflt = (case map_of d k of None \<Rightarrow> dflt | Some v \<Rightarrow> v)"

definition getitem :: "string \<Rightarrow> 'a option \<Rightarrow> error + 'a" where
  \<comment> \<open>\<open>d[k]\<close> on an optional entry: a missing key raises \<open>KeyError(k)\<close>\<close>
  "getitem k v = (case v of None \<Rightarrow> Inl (KeyError k) | Some x \<Rightarrow> Inr x)"

definition and_then :: "error + 'a \<Rightarrow> ('a \<Rightarrow> error + 'b) \<Rightarrow> error + 'b" where
  \<comment> \<open>sequencing of two statements, the first of which may raise\<close>
  "and_then m f = (case m of Inl e \<Rightarrow> Inl e | Inr x \<Rightarrow> f x)"

fun join :: "string \<Rightarrow> string list \<Rightarrow> string" where
  \<comment> \<open>\<open>sep.join(xs)\<close>\<close>
  "join sep [] = []"
| "join sep [x] = x"
| "join sep (x # y # ys) = x @ sep @ join sep (y # ys)"

section \<open>The date extractor\<close>

definition parse_date_from_pubdate :: "str_dict \<Rightarrow> string" where
  "parse_date_from_pubdate pubdate =
     (if map_of pubdate ''Year'' \<noteq> None then
        (let year = the (map_of pubdate ''Year'');
             month = dict_get pubdate ''Month'' ''01'';
             day = dict_get pubdate ''Day'' ''01''
         in year @ ''-'' @ month @ ''-'' @ day)
      else ''No date found'')"

section \<open>Character classes and string helpers\<close>

text \<open>
  The pattern \<open>[^a-zA-Z0-9\s]\<close> of \<open>re.sub\<close> matches every character outside the
  three ASCII ranges and outside the whitespace class. On a \<open>str\<close> pattern \<open>\s\<close> is the
  Unicode whitespace class, which below code point 256 is 9 to 13, 28 to 32, 133 and
  160; \<open>str.strip()\<close> removes the same characters.
\<close>

definition is_space :: "char \<Rightarrow> bool" where
  "is_space c =
     (let n = (of_char c :: nat)
      in (9 \<le> n \<and> n \<le> 13) \<or> (28 \<le> n \<and> n \<le> 32) \<or> n = 133 \<or> n = 160)"

definition is_ascii_alnum :: "char \<Rightarrow> bool" where
  "is_ascii_alnum c =
     (let n = (of_char c :: nat)
      in (97 \<le> n \<and> n \<le> 122) \<or> (65 \<le> n \<and> n \<le> 90) \<or> (48 \<le> n \<and> n \<le> 57))"

definition sanitize :: "string \<Rightarrow> string" where
  \<comment> \<open>\<open>re.sub(r'[^a-zA-Z0-9\s]', '', s)\<close>\<close>
  "sanitize s = filter (\<lambda>c. is_ascii_alnum c \<or> is_space c) s"

definition strip :: "string \<Rightarrow> string" where
  \<comment> \<open>\<open>s.strip()\<close>\<close>
  "strip s = rev (dropWhile is_space (rev (dropWhile is_space s)))"

fun split_loop :: "string \<Rightarrow> string \<Rightarrow> string list" where
  \<comment> \<open>\<open>s.split(', ')\<close>, the piece read so far kept reversed in the first argument\<close>
  "split_loop piece [] = [rev piece]"
| "split_loop piece [c] = [rev (c # piece)]"
| "split_loop piece (c # d # cs) =
     (if c = CHR '','' \<and> d = CHR '' '' then rev piece # split_loop [] cs
      else split_loop (c # piece) (d # cs))"

definition split_comma_space :: "string \<Rightarrow> string list" where
  "split_comma_space s = split_loop [] s"

definition path_join :: "string \<Rightarrow> string \<Rightarrow> string" where
  \<comment> \<open>\<open>os.path.join(d, name)\<close> for a relative \<open>name\<close>\<close>
  "path_join d name = d @ ''/'' @ name"

section \<open>Raw records\<close>

text \<open>
  The nested mapping returned by the details endpoint. Every key the code reads is an
  optional field: \<open>None\<close> is an absent key, so that each subscript of the source can
  raise \<open>KeyError\<close> and each \<open>in\<close> test and \<open>get\<close> can find the key missing.
\<close>

record affiliation_dict =
  Affiliation :: "string option"

record author_dict =
  LastName :: "string option"
  ForeName :: "string option"
  AffiliationInfo :: "affiliation_dict list option"

record abstract_dict =
  AbstractText :: "string list option"

record journal_dict =
  Title :: "string option"

record article_dict =
  ArticleTitle :: "string option"
  Abstract :: "abstract_dict option"
  AuthorList :: "author_dict list option"
  Journal :: "journal_dict option"

record mesh_heading_dict =
  DescriptorName :: "string option"

record medline_citation_dict =
  PMID :: "string option"
  Article :: "article_dict option"
  MeshHeadingList :: "mesh_heading_dict list option"

record pubmed_article_dict =
  MedlineCitation :: "medline_citation_dict option"

record records_dict =
  PubmedArticle :: "pubmed_article_dict list option"

section \<open>Rows and data frames\<close>

record publication_row =
  col_PMID :: string
  col_Title :: string
  col_Abstract :: string
  col_Authors :: string
  col_Journal :: string
  col_Keywords :: string
  col_URL :: string
  col_Affiliations :: string

definition publication_columns :: "string list" where
  "publication_columns =
     [''PMID'', ''Title'', ''Abstract'', ''Authors'', ''Journal'', ''Keywords'', ''URL'',
      ''Affiliations'']"

definition cell :: "publication_row \<Rightarrow> string \<Rightarrow> string" where
  "cell row c =
     (if c = ''PMID'' then col_PMID row
      else if c = ''Title'' then col_Title row
      else if c = ''Abstract'' then col_Abstract row
      else if c = ''Authors'' then col_Authors row
      else if c = ''Journal'' then col_Journal row
      else if c = ''Keywords'' then col_Keywords row
      else if c = ''URL'' then col_URL row
      else if c = ''Affiliations'' then col_Affiliations row
      else [])"

record dataframe =
  df_columns :: "string list"
  df_rows :: "publication_row list"

definition empty_dataframe :: dataframe where
  \<comment> \<open>\<open>pd.DataFrame()\<close>: no column and no row\<close>
  "empty_dataframe = \<lparr>df_columns = [], df_rows = []\<rparr>"

definition row_frame :: "publication_row \<Rightarrow> dataframe" where
  \<comment> \<open>\<open>pd.DataFrame({'PMID': [pmid], ...})\<close>: the eight columns and one row\<close>
  "row_frame row = \<lparr>df_columns = publication_columns, df_rows = [row]\<rparr>"

definition pd_concat :: "dataframe \<Rightarrow> dataframe \<Rightarrow> dataframe" where
  \<comment> \<open>\<open>pd.concat([df, new], ignore_index=True)\<close>: the columns are united in order of
     first appearance, the rows of \<open>new\<close> follow those of \<open>df\<close>\<close>
  "pd_concat df new =
     \<lparr>df_columns = df_columns df @ filter (\<lambda>c. c \<notin> set (df_columns df)) (df_columns new),
      df_rows = df_rows df @ df_rows new\<rparr>"

section \<open>The filesystem\<close>

text \<open>
  What the code sees of the operating system: the directories that exist, the files and
  what they hold, and the paths at which creating or writing is refused. A tabular file
  is kept as its header and data cells rather than as quoted text.
\<close>

datatype file_content = Csv "string list" "string list list" | Text string

record filesystem =
  dirs :: "string list"
  files :: "(string \<times> file_content) list"
  denied :: "string list"

definition makedirs :: "filesystem \<Rightarrow> string \<Rightarrow> error + filesystem" where
  \<comment> \<open>\<open>os.makedirs(d, exist_ok=True)\<close>\<close>
  "makedirs fs d =
     (if d \<in> set (dirs fs) then Inr fs
      else if map_of (files fs) d \<noteq> None \<or> d \<in> set (denied fs) then Inl (OSError d)
      else Inr (fs\<lparr>dirs := d # dirs fs\<rparr>))"

definition write_file :: "filesystem \<Rightarrow> string \<Rightarrow> string \<Rightarrow> file_content \<Rightarrow> error + filesystem" where
  \<comment> \<open>create or overwrite the file \<open>name\<close> of the directory \<open>d\<close>\<close>
  "write_file fs d name content =
     (let path = path_join d name
      in if d \<notin> set (dirs fs) \<or> path \<in> set (dirs fs) \<or> path \<in> set (denied fs)
         then Inl (OSError path)
         else Inr (fs\<lparr>files := (path, content) # filter (\<lambda>(p, _). p \<noteq> path) (files fs)\<rparr>))"

definition to_csv :: "dataframe \<Rightarrow> file_content" where
  \<comment> \<open>\<open>df.to_csv(path, index=False)\<close>: the header is the frame's columns\<close>
  "to_csv df = Csv (df_columns df) (map (\<lambda>row. map (cell row) (df_columns df)) (df_rows df))"

section \<open>The dataset builder\<close>

text \<open>
  The iteration order of a Python \<open>set\<close> of strings depends on the hash seed of the
  process. It is a parameter \<open>set_iter\<close>: the function from the list handed to
  \<open>set(...)\<close> to the sequence in which the set is then iterated. Whatever the seed, that
  sequence has no repetition and holds exactly the elements of the list.
\<close>

definition set_iter_ok :: "(string list \<Rightarrow> string list) \<Rightarrow> bool" where
  "set_iter_ok set_iter = (\<forall>xs. distinct (set_iter xs) \<and> set (set_iter xs) = set xs)"

definition author_name :: "author_dict \<Rightarrow> string" where
  \<comment> \<open>\<open>author.get('LastName', '') + ' ' + author.get('ForeName', '')\<close>\<close>
  "author_name author =
     (case LastName author of None \<Rightarrow> [] | Some l \<Rightarrow> l) @ '' '' @
     (case ForeName author of None \<Rightarrow> [] | Some f \<Rightarrow> f)"

fun affiliations_loop :: "string list \<Rightarrow> author_dict list \<Rightarrow> error + string list" where
  \<comment> \<open>the loop of lines 59 to 61, the list \<open>affiliations\<close> as first argument\<close>
  "affiliations_loop affiliations [] = Inr affiliations"
| "affiliations_loop affiliations (author # rest) =
     (case AffiliationInfo author of
        None \<Rightarrow> affiliations_loop affiliations rest
      | Some [] \<Rightarrow> affiliations_loop affiliations rest
      | Some (info # _) \<Rightarrow>
          (case Affiliation info of
             None \<Rightarrow> Inl (KeyError ''Affiliation'')
           | Some a \<Rightarrow> affiliations_loop (affiliations @ [a]) rest))"

fun descriptor_names :: "mesh_heading_dict list \<Rightarrow> error + string list" where
  \<comment> \<open>\<open>keyword['DescriptorName'] for keyword in ...\<close>\<close>
  "descriptor_names [] = Inr []"
| "descriptor_names (keyword # rest) =
     (case DescriptorName keyword of
        None \<Rightarrow> Inl (KeyError ''DescriptorName'')
      | Some d \<Rightarrow> and_then (descriptor_names rest) (\<lambda>ds. Inr (d # ds)))"

definition new_row :: "(string list \<Rightarrow> string list) \<Rightarrow> pubmed_article_dict \<Rightarrow> error + publication_row" where
  \<comment> \<open>the body of the loop over \<open>records['PubmedArticle']\<close>, lines 53 to 77, each
     subscript raising in the order of the source; \<open>record['MedlineCitation']\<close> and its
     \<open>['Article']\<close>, which the source subscripts anew on every line, are read once. The
     \<open>print\<close> of line 52 writes to the console only.\<close>
  "new_row set_iter record =
     and_then (getitem ''MedlineCitation'' (MedlineCitation record)) (\<lambda>citation.
     and_then (getitem ''PMID'' (PMID citation)) (\<lambda>pmid.
     and_then (getitem ''Article'' (Article citation)) (\<lambda>article.
     and_then (getitem ''ArticleTitle'' (ArticleTitle article)) (\<lambda>title.
     let abstract =
           (case Abstract article of
              None \<Rightarrow> []
            | Some a \<Rightarrow> (case AbstractText a of None \<Rightarrow> [] | Some ts \<Rightarrow> join '' '' ts))
     in
     and_then (getitem ''AuthorList'' (AuthorList article)) (\<lambda>author_list.
     let authors = join '', '' (map author_name author_list)
     in
     and_then (affiliations_loop [] author_list) (\<lambda>affiliation_list.
     let affiliations = join ''; '' (set_iter affiliation_list)
     in
     and_then (getitem ''Journal'' (Journal article)) (\<lambda>journal_entry.
     and_then (getitem ''Title'' (Title journal_entry)) (\<lambda>journal.
     and_then (case MeshHeadingList citation of
                 None \<Rightarrow> Inr []
               | Some headings \<Rightarrow>
                   and_then (descriptor_names headings) (\<lambda>ds. Inr (join '', '' ds)))
       (\<lambda>keywords.
     let url = ''https://www.ncbi.nlm.nih.gov/pubmed/'' @ pmid
     in Inr \<lparr>col_PMID = pmid, col_Title = title, col_Abstract = abstract,
             col_Authors = authors, col_Journal = journal, col_Keywords = keywords,
             col_URL = url, col_Affiliations = affiliations\<rparr>)))))))))"

fun dataframe_loop :: "(string list \<Rightarrow> string list) \<Rightarrow> dataframe \<Rightarrow> pubmed_article_dict list \<Rightarrow> error + dataframe" where
  \<comment> \<open>the loop of lines 50 to 79, the frame \<open>df\<close> as second argument\<close>
  "dataframe_loop set_iter df [] = Inr df"
| "dataframe_loop set_iter df (record # rest) =
     (case new_row set_iter record of
        Inl e \<Rightarrow> Inl e
      | Inr row \<Rightarrow> dataframe_loop set_iter (pd_concat df (row_frame row)) rest)"

definition create_publication_dataframe ::
  "(string list \<Rightarrow> string list) \<Rightarrow> string \<Rightarrow> filesystem \<Rightarrow> records_dict \<Rightarrow> filesystem \<times> (error + dataframe)" where
  \<comment> \<open>\<open>now\<close> is \<open>time.strftime('%Y%m%d%H%M')\<close>. The result is the filesystem the call
     leaves behind, and the error raised or the frame returned.\<close>
  "create_publication_dataframe set_iter now fs records =
     (case and_then (getitem ''PubmedArticle'' (PubmedArticle records))
             (dataframe_loop set_iter empty_dataframe) of
        Inl e \<Rightarrow> (fs, Inl e)
      | Inr df \<Rightarrow>
          (case makedirs fs ''outputs'' of
             Inl e \<Rightarrow> (fs, Inl e)
           | Inr fs1 \<Rightarrow>
               (let filename = now @ ''.csv''
                in case write_file fs1 ''outputs'' filename (to_csv df) of
                     Inl e \<Rightarrow> (fs1, Inl e)
                   | Inr fs2 \<Rightarrow> (fs2, Inr df))))"

section \<open>The document renderer\<close>

definition markdown_filename :: "publication_row \<Rightarrow> string" where
  "markdown_filename row = sanitize (col_Title row) @ ''.md''"

definition author_links :: "string \<Rightarrow> string" where
  \<comment> \<open>the join of line 111\<close>
  "author_links authors =
     join ''**, **''
       (map (\<lambda>author. ''[['' @ sanitize (strip author) @ '']]'') (split_comma_space authors))"

definition markdown_content :: "publication_row \<Rightarrow> string" where
  "markdown_content row =
     ''# '' @ col_Title row @ ''\<newline>\<newline>'' @
     ''**PMID:** '' @ col_PMID row @ ''\<newline>\<newline>'' @
     ''**Journal:** '' @ col_Journal row @ ''\<newline>\<newline>'' @
     ''**Authors:** '' @ author_links (col_Authors row) @ ''\<newline>\<newline>'' @
     ''**Abstract:**\<newline>'' @ col_Abstract row @ ''\<newline>\<newline>'' @
     ''**Keywords:** '' @ col_Keywords row @ ''\<newline>\<newline>'' @
     ''**URL:** '' @ col_URL row @ ''\<newline>\<newline>'' @
     ''**Affiliations:** '' @ col_Affiliations row @ ''\<newline>\<newline>''"

fun markdown_loop :: "filesystem \<Rightarrow> publication_row list \<Rightarrow> filesystem \<times> error option" where
  \<comment> \<open>the loop over \<open>publication_df.iterrows()\<close>; \<open>None\<close> when no write raised\<close>
  "markdown_loop fs [] = (fs, None)"
| "markdown_loop fs (row # rest) =
     (case write_file fs ''outputs'' (markdown_filename row) (Text (markdown_content row)) of
        Inl e \<Rightarrow> (fs, Some e)
      | Inr fs' \<Rightarrow> markdown_loop fs' rest)"

definition create_publication_markdown :: "filesystem \<Rightarrow> dataframe \<Rightarrow> filesystem \<times> error option" where
  "create_publication_markdown fs publication_df = markdown_loop fs (df_rows publication_df)"

section \<open>Sample inputs\<close>

text \<open>Small concrete records, rows and filesystems on which the results below are run.\<close>

definition sample_author :: "string \<Rightarrow> string \<Rightarrow> string option \<Rightarrow> author_dict" where
  "sample_author l f aff =
     \<lparr>LastName = Some l, ForeName = Some f,
      AffiliationInfo = (case aff of None \<Rightarrow> None | Some a \<Rightarrow> Some [\<lparr>Affiliation = Some a\<rparr>])\<rparr>"

definition sample_article :: "author_dict list option \<Rightarrow> pubmed_article_dict" where
  \<comment> \<open>a citation with no abstract and no subject headings\<close>
  "sample_article author_list =
     \<lparr>MedlineCitation = Some
        \<lparr>PMID = Some ''123'',
         Article = Some
           \<lparr>ArticleTitle = Some ''Burn Patients: A Review!'', Abstract = None,
            AuthorList = author_list,
            Journal = Some \<lparr>Title = Some ''Burns''\<rparr>\<rparr>,
         MeshHeadingList = None\<rparr>\<rparr>"

definition sample_row :: "string \<Rightarrow> string \<Rightarrow> publication_row" where
  \<comment> \<open>the row of a \<open>sample_article\<close>, given its two joined columns\<close>
  "sample_row authors affiliations =
     \<lparr>col_PMID = ''123'', col_Title = ''Burn Patients: A Review!'', col_Abstract = [],
      col_Authors = authors, col_Journal = ''Burns'', col_Keywords = [],
      col_URL = ''https://www.ncbi.nlm.nih.gov/pubmed/123'', col_Affiliations = affiliations\<rparr>"

definition punctuation_row :: publication_row where
  "punctuation_row =
     \<lparr>col_PMID = ''7'', col_Title = ''?!...'', col_Abstract = [], col_Authors = ''Doe J'',
      col_Journal = ''Burns'', col_Keywords = [],
      col_URL = ''https://www.ncbi.nlm.nih.gov/pubmed/7'', col_Affiliations = []\<rparr>"

definition fresh_fs :: filesystem where
  "fresh_fs = \<lparr>dirs = [], files = [], denied = []\<rparr>"

definition outputs_fs :: filesystem where
  "outputs_fs = \<lparr>dirs = [''outputs''], files = [], denied = []\<rparr>"

definition readonly_fs :: filesystem where
  "readonly_fs =
     \<lparr>dirs = [''outputs''], files = [], denied = [''outputs/202401010000.csv'']\<rparr>"

section \<open>Properties of the date extractor\<close>

text \<open>
  Claim C1, as the code has it. A date dict with a \<open>Year\<close> entry is rendered as year,
  month and day joined by hyphens, month and day defaulting to \<open>01\<close>; a date dict with
  no \<open>Year\<close> entry gives the fixed sentinel, which the code spells \<open>No date found\<close>
  with a capital N.
\<close>

theorem parse_date_from_pubdate_spec:
  "(map_of pubdate ''Year'' = Some y \<longrightarrow>
      parse_date_from_pubdate pubdate =
        y @ ''-'' @ dict_get pubdate ''Month'' ''01'' @ ''-'' @ dict_get pubdate ''Day'' ''01'')
   \<and> (map_of pubdate ''Year'' = None \<longrightarrow>
      parse_date_from_pubdate pubdate = ''No date found'')"
  by (simp add: parse_date_from_pubdate_def)

theorem parse_date_from_pubdate_spec_witness:
  "map_of [(''Year'', ''2023'')] ''Year'' = Some ''2023''
   \<and> parse_date_from_pubdate [(''Year'', ''2023'')] = ''2023-01-01''
   \<and> map_of [(''Month'', ''05'')] ''Year'' = None
   \<and> parse_date_from_pubdate [(''Month'', ''05'')] = ''No date found''"
  using parse_date_from_pubdate_spec [of "[(''Year'', ''2023'')]" "''2023''"]
        parse_date_from_pubdate_spec [of "[(''Month'', ''05'')]" "''x''"]
  by (simp add: dict_get_def)

text \<open>
  Claim C1 as the specification words it names the sentinel \<open>no date found\<close> in lower
  case; on the empty date dict the code returns a different string.
\<close>

theorem parse_date_sentinel_counterexample:
  "map_of ([] :: str_dict) ''Year'' = None
   \<and> parse_date_from_pubdate [] \<noteq> ''no date found''"
  by (simp add: parse_date_from_pubdate_def)

section \<open>Auxiliary facts\<close>

lemma and_then_Inr_iff: "and_then m f = Inr y \<longleftrightarrow> (\<exists>x. m = Inr x \<and> f x = Inr y)"
  by (cases m) (simp_all add: and_then_def)

lemma and_then_Inl_iff:
  "and_then m f = Inl e \<longleftrightarrow> m = Inl e \<or> (\<exists>x. m = Inr x \<and> f x = Inl e)"
  by (cases m) (simp_all add: and_then_def)

lemma getitem_Inr_iff: "getitem k v = Inr x \<longleftrightarrow> v = Some x"
  by (cases v) (simp_all add: getitem_def)

lemma getitem_Inl_iff: "getitem k v = Inl e \<longleftrightarrow> v = None \<and> e = KeyError k"
  by (cases v) (auto simp: getitem_def)

lemma set_iter_ok_Nil: "set_iter_ok set_iter \<Longrightarrow> set_iter [] = []"
  by (metis set_iter_ok_def set_empty)

lemma set_iter_ok_remdups: "set_iter_ok remdups"
  by (simp add: set_iter_ok_def)

subsection \<open>The affiliation loop and the subject headings\<close>

lemma affiliations_loop_append:
  "affiliations_loop acc authors = Inr xs \<Longrightarrow>
     xs = acc @
       map (\<lambda>a. the (Affiliation (hd (the (AffiliationInfo a)))))
         (filter (\<lambda>a. AffiliationInfo a \<noteq> None \<and> AffiliationInfo a \<noteq> Some []) authors)"
proof (induction authors arbitrary: acc)
  case Nil
  then show ?case by simp
next
  case (Cons a authors)
  show ?case
  proof (cases "AffiliationInfo a")
    case None
    with Cons show ?thesis by simp
  next
    case (Some infos)
    show ?thesis
    proof (cases infos)
      case Nil
      with Some Cons show ?thesis by simp
    next
      case (Cons info rest)
      with Some Cons.prems obtain x where x: "Affiliation info = Some x"
        and loop: "affiliations_loop (acc @ [x]) authors = Inr xs"
        by (auto split: option.splits)
      from Cons.IH [OF loop] Some Cons x show ?thesis by simp
    qed
  qed
qed

lemma affiliations_loop_none:
  "\<forall>a\<in>set authors. AffiliationInfo a = None \<or> AffiliationInfo a = Some [] \<Longrightarrow>
     affiliations_loop acc authors = Inr acc"
  by (induction authors arbitrary: acc) auto

lemma affiliations_loop_total:
  "\<forall>a\<in>set authors. \<forall>info infos.
       AffiliationInfo a = Some (info # infos) \<longrightarrow> Affiliation info \<noteq> None \<Longrightarrow>
     \<exists>xs. affiliations_loop acc authors = Inr xs"
proof (induction authors arbitrary: acc)
  case Nil
  then show ?case by simp
next
  case (Cons a authors)
  then show ?case by (auto split: option.splits list.splits)
qed

lemma affiliations_loop_error:
  "affiliations_loop acc authors = Inl e \<Longrightarrow> e = KeyError ''Affiliation''"
  by (induction authors arbitrary: acc) (auto split: option.splits list.splits)

lemma descriptor_names_total:
  "\<forall>h\<in>set hs. DescriptorName h \<noteq> None \<Longrightarrow> \<exists>ds. descriptor_names hs = Inr ds"
  by (induction hs) (auto simp: and_then_def)

lemma descriptor_names_error:
  "descriptor_names hs = Inl e \<Longrightarrow> e = KeyError ''DescriptorName''"
  by (induction hs) (auto simp: and_then_def split: option.splits sum.splits)

subsection \<open>One record\<close>

lemma new_row_Inr_fields:
  assumes "new_row set_iter record = Inr row"
  shows "\<exists>citation pmid article title author_list collected journal_entry journal keywords.
      MedlineCitation record = Some citation \<and> PMID citation = Some pmid \<and>
      Article citation = Some article \<and> ArticleTitle article = Some title \<and>
      AuthorList article = Some author_list \<and>
      affiliations_loop [] author_list = Inr collected \<and>
      Journal article = Some journal_entry \<and> Title journal_entry = Some journal \<and>
      (case MeshHeadingList citation of None \<Rightarrow> Inr []
       | Some headings \<Rightarrow> and_then (descriptor_names headings) (\<lambda>ds. Inr (join '', '' ds)))
        = Inr keywords \<and>
      row = \<lparr>col_PMID = pmid, col_Title = title,
             col_Abstract = (case Abstract article of None \<Rightarrow> []
                | Some a \<Rightarrow> (case AbstractText a of None \<Rightarrow> [] | Some ts \<Rightarrow> join '' '' ts)),
             col_Authors = join '', '' (map author_name author_list),
             col_Journal = journal, col_Keywords = keywords,
             col_URL = ''https://www.ncbi.nlm.nih.gov/pubmed/'' @ pmid,
             col_Affiliations = join ''; '' (set_iter collected)\<rparr>"
  using assms unfolding new_row_def Let_def and_then_Inr_iff getitem_Inr_iff
  by blast

lemma new_row_error_KeyError:
  assumes "new_row set_iter record = Inl e"
  shows "\<exists>k. e = KeyError k"
proof -
  have kw: "\<exists>k. e = KeyError k"
    if "(case MeshHeadingList citation of None \<Rightarrow> Inr []
         | Some headings \<Rightarrow> and_then (descriptor_names headings) (\<lambda>ds. Inr (join '', '' ds)))
        = Inl e" for citation
    using that descriptor_names_error
    by (cases "MeshHeadingList citation") (auto simp: and_then_Inl_iff)
  from assms show ?thesis
    unfolding new_row_def Let_def and_then_Inl_iff getitem_Inl_iff
    using affiliations_loop_error kw by blast
qed

lemma new_row_missing_required:
  assumes "Option.bind (MedlineCitation record) PMID = None
     \<or> Option.bind (Option.bind (MedlineCitation record) Article) ArticleTitle = None
     \<or> Option.bind (Option.bind (MedlineCitation record) Article) AuthorList = None
     \<or> Option.bind (Option.bind (Option.bind (MedlineCitation record) Article) Journal) Title
          = None"
  shows "\<exists>e. new_row set_iter record = Inl e"
proof (cases "new_row set_iter record")
  case (Inl e)
  then show ?thesis by blast
next
  case (Inr row)
  from new_row_Inr_fields [OF Inr] assms show ?thesis by auto
qed

lemma new_row_sample:
  "new_row remdups (sample_article (Some [])) = Inr (sample_row [] [])"
  by (simp add: new_row_def and_then_def getitem_def sample_article_def sample_row_def)

lemma new_row_total:
  assumes "MedlineCitation record = Some citation"
    and "PMID citation \<noteq> None"
    and "Article citation = Some article"
    and "ArticleTitle article \<noteq> None"
    and "AuthorList article = Some author_list"
    and "Journal article = Some journal_entry"
    and "Title journal_entry \<noteq> None"
    and "\<forall>a\<in>set author_list. \<forall>info infos.
           AffiliationInfo a = Some (info # infos) \<longrightarrow> Affiliation info \<noteq> None"
    and "\<forall>hs. MeshHeadingList citation = Some hs \<longrightarrow> (\<forall>h\<in>set hs. DescriptorName h \<noteq> None)"
  shows "\<exists>row. new_row set_iter record = Inr row"
proof -
  from assms(2) obtain pmid where pmid: "PMID citation = Some pmid" by blast
  from assms(4) obtain title where title: "ArticleTitle article = Some title" by blast
  from assms(7) obtain journal where journal: "Title journal_entry = Some journal" by blast
  from affiliations_loop_total [OF assms(8)]
  obtain xs where xs: "affiliations_loop [] author_list = Inr xs" by blast
  define keywords_result where "keywords_result =
       (case MeshHeadingList citation of None \<Rightarrow> Inr []
        | Some headings \<Rightarrow> and_then (descriptor_names headings) (\<lambda>ds. Inr (join '', '' ds)))"
  have "\<exists>kw. keywords_result = Inr kw"
  proof (cases "MeshHeadingList citation")
    case None
    then show ?thesis by (simp add: keywords_result_def)
  next
    case (Some hs)
    with assms(9) have "\<forall>h\<in>set hs. DescriptorName h \<noteq> None" by simp
    from descriptor_names_total [OF this] Some show ?thesis
      by (auto simp: and_then_def keywords_result_def)
  qed
  then obtain kw where kw: "keywords_result = Inr kw" by (elim exE)
  have "new_row set_iter record = Inr
     \<lparr>col_PMID = pmid, col_Title = title,
      col_Abstract = (case Abstract article of None \<Rightarrow> []
         | Some a \<Rightarrow> (case AbstractText a of None \<Rightarrow> [] | Some ts \<Rightarrow> join '' '' ts)),
      col_Authors = join '', '' (map author_name author_list),
      col_Journal = journal, col_Keywords = kw,
      col_URL = ''https://www.ncbi.nlm.nih.gov/pubmed/'' @ pmid,
      col_Affiliations = join ''; '' (set_iter xs)\<rparr>"
    using assms(1,3,5,6) pmid title journal xs kw [unfolded keywords_result_def]
    by (simp add: new_row_def and_then_def getitem_def)
  then show ?thesis by (rule exI)
qed

subsection \<open>The loop over the records and the export\<close>

lemma dataframe_loop_rows:
  "dataframe_loop set_iter df articles = Inr df' \<Longrightarrow>
     \<exists>rows. df_rows df' = df_rows df @ rows \<and> map (new_row set_iter) articles = map Inr rows"
proof (induction articles arbitrary: df)
  case Nil
  then show ?case by simp
next
  case (Cons r rest)
  from Cons.prems obtain row where row: "new_row set_iter r = Inr row"
    and loop: "dataframe_loop set_iter (pd_concat df (row_frame row)) rest = Inr df'"
    by (auto split: sum.splits)
  from Cons.IH [OF loop] obtain rows where
    "df_rows df' = df_rows (pd_concat df (row_frame row)) @ rows"
    "map (new_row set_iter) rest = map Inr rows" by blast
  with row show ?case by (simp add: pd_concat_def row_frame_def)
qed

lemma dataframe_loop_fails:
  "r \<in> set articles \<Longrightarrow> new_row set_iter r = Inl e \<Longrightarrow>
     \<exists>e'. dataframe_loop set_iter df articles = Inl e'"
  by (induction articles arbitrary: df) (auto split: sum.splits)

lemma dataframe_loop_total:
  "\<forall>r\<in>set articles. \<exists>row. new_row set_iter r = Inr row \<Longrightarrow>
     \<exists>df'. dataframe_loop set_iter df articles = Inr df'"
proof (induction articles arbitrary: df)
  case Nil
  then show ?case by simp
next
  case (Cons r rest)
  then obtain row where row: "new_row set_iter r = Inr row" by auto
  from Cons.prems have "\<forall>r\<in>set rest. \<exists>row. new_row set_iter r = Inr row" by simp
  from Cons.IH [OF this, of "pd_concat df (row_frame row)"] row show ?case by simp
qed

lemma export_accepted:
  assumes "''outputs'' \<in> set (dirs fs)
      \<or> (map_of (files fs) ''outputs'' = None \<and> ''outputs'' \<notin> set (denied fs))"
    and "path_join ''outputs'' name \<notin> set (dirs fs)"
    and "path_join ''outputs'' name \<notin> set (denied fs)"
  shows "\<exists>fs1 fs2. makedirs fs ''outputs'' = Inr fs1
     \<and> write_file fs1 ''outputs'' name content = Inr fs2"
proof -
  have ne: "path_join ''outputs'' name \<noteq> ''outputs''"
    by (simp add: path_join_def)
  show ?thesis
  proof (cases "''outputs'' \<in> set (dirs fs)")
    case True
    with assms(2,3) show ?thesis
      by (simp add: makedirs_def write_file_def Let_def)
  next
    case False
    with assms ne show ?thesis
      by (simp add: makedirs_def write_file_def Let_def)
  qed
qed

lemma dataframe_loop_error_KeyError:
  "dataframe_loop set_iter df articles = Inl e \<Longrightarrow> \<exists>k. e = KeyError k"
proof (induction articles arbitrary: df)
  case Nil
  then show ?case by simp
next
  case (Cons r rest)
  show ?case
  proof (cases "new_row set_iter r")
    case (Inl e')
    with Cons.prems have "e' = e" by simp
    with Inl new_row_error_KeyError show ?thesis by blast
  next
    case (Inr row)
    with Cons.prems have "dataframe_loop set_iter (pd_concat df (row_frame row)) rest = Inl e"
      by simp
    from Cons.IH [OF this] show ?thesis .
  qed
qed

lemma create_publication_dataframe_Inr:
  assumes "snd (create_publication_dataframe set_iter now fs records) = Inr df"
  shows "\<exists>articles fs1.
      PubmedArticle records = Some articles \<and>
      dataframe_loop set_iter empty_dataframe articles = Inr df \<and>
      makedirs fs ''outputs'' = Inr fs1 \<and>
      write_file fs1 ''outputs'' (now @ ''.csv'') (to_csv df)
        = Inr (fst (create_publication_dataframe set_iter now fs records))"
  using assms
  by (auto simp: create_publication_dataframe_def and_then_def getitem_def Let_def
      split: option.splits sum.splits)

lemma write_file_lookup:
  "write_file fs d name content = Inr fs' \<Longrightarrow>
     map_of (files fs') (path_join d name) = Some content"
  by (auto simp: write_file_def Let_def split: if_splits)

section \<open>Properties of the record transformation\<close>

text \<open>
  Claim C6. Whenever a record yields a row, the \<open>Authors\<close> column of the row is the
  comma-space join, in the order of the author list, of each author's last name, one
  space and fore name (a name that is absent counting as the empty string). The authors
  (Doe, J) and (Roe, A) give \<open>Doe J, Roe A\<close>; an empty author list gives the empty
  string.
\<close>

theorem new_row_authors:
  assumes "new_row set_iter record = Inr row"
    and "MedlineCitation record = Some citation"
    and "Article citation = Some article"
    and "AuthorList article = Some author_list"
  shows "col_Authors row =
     join '', ''
       (map (\<lambda>a. (case LastName a of None \<Rightarrow> [] | Some l \<Rightarrow> l) @ '' '' @
                  (case ForeName a of None \<Rightarrow> [] | Some f \<Rightarrow> f)) author_list)"
proof -
  from new_row_Inr_fields [OF assms(1)] assms(2-4)
  have "col_Authors row = join '', '' (map author_name author_list)" by auto
  then show ?thesis by (simp add: author_name_def [abs_def])
qed

theorem new_row_authors_witness:
  "new_row remdups
     (sample_article (Some [sample_author ''Doe'' ''J'' None, sample_author ''Roe'' ''A'' None]))
     = Inr (sample_row ''Doe J, Roe A'' [])
   \<and> col_Authors (sample_row ''Doe J, Roe A'' []) = ''Doe J, Roe A''
   \<and> new_row remdups (sample_article (Some [])) = Inr (sample_row [] [])
   \<and> col_Authors (sample_row [] []) = []"
proof -
  let ?authors = "[sample_author ''Doe'' ''J'' None, sample_author ''Roe'' ''A'' None]"
  have r: "new_row remdups (sample_article (Some ?authors)) = Inr (sample_row ''Doe J, Roe A'' [])"
    by (simp add: new_row_def and_then_def getitem_def sample_article_def sample_row_def
        sample_author_def author_name_def)
  have "col_Authors (sample_row ''Doe J, Roe A'' []) = ''Doe J, Roe A''"
    using new_row_authors [OF r, of _ _ ?authors]
    by (simp add: sample_article_def sample_author_def)
  moreover have "col_Authors (sample_row [] []) = []"
    using new_row_authors [OF new_row_sample, of _ _ "[]"]
    by (simp add: sample_article_def)
  ultimately show ?thesis using r new_row_sample by simp
qed

text \<open>
  Claim C7. Whenever a record yields a row, the \<open>Affiliations\<close> column is the
  semicolon-space join of an enumeration of the set of the collected affiliation strings
  (the first affiliation entry of each author that has one): the enumeration has no
  repetition and holds exactly the collected strings, so that authors sharing one
  affiliation string contribute one entry.
\<close>

theorem new_row_affiliations:
  assumes "set_iter_ok set_iter"
    and "new_row set_iter record = Inr row"
    and "MedlineCitation record = Some citation"
    and "Article citation = Some article"
    and "AuthorList article = Some author_list"
    and "collected =
           map (\<lambda>a. the (Affiliation (hd (the (AffiliationInfo a)))))
             (filter (\<lambda>a. AffiliationInfo a \<noteq> None \<and> AffiliationInfo a \<noteq> Some []) author_list)"
  shows "col_Affiliations row = join ''; '' (set_iter collected)
         \<and> distinct (set_iter collected) \<and> set (set_iter collected) = set collected"
proof -
  from new_row_Inr_fields [OF assms(2)] assms(3-5)
  obtain xs where xs: "affiliations_loop [] author_list = Inr xs"
    and row: "col_Affiliations row = join ''; '' (set_iter xs)"
    by auto
  from affiliations_loop_append [OF xs] assms(6) have "xs = collected" by simp
  with row assms(1) show ?thesis by (simp add: set_iter_ok_def)
qed

theorem new_row_affiliations_witness:
  "set_iter_ok remdups
   \<and> new_row remdups
       (sample_article (Some [sample_author ''Doe'' ''J'' (Some ''Unit X''),
                              sample_author ''Poe'' ''E'' None,
                              sample_author ''Roe'' ''A'' (Some ''Unit Y''),
                              sample_author ''Zoe'' ''B'' (Some ''Unit X'')]))
       = Inr (sample_row ''Doe J, Poe E, Roe A, Zoe B'' ''Unit Y; Unit X'')
   \<and> col_Affiliations (sample_row ''Doe J, Poe E, Roe A, Zoe B'' ''Unit Y; Unit X'')
       = join ''; '' (remdups [''Unit X'', ''Unit Y'', ''Unit X''])
   \<and> remdups [''Unit X'', ''Unit Y'', ''Unit X''] = [''Unit Y'', ''Unit X'']"
proof -
  let ?authors = "[sample_author ''Doe'' ''J'' (Some ''Unit X''),
                   sample_author ''Poe'' ''E'' None,
                   sample_author ''Roe'' ''A'' (Some ''Unit Y''),
                   sample_author ''Zoe'' ''B'' (Some ''Unit X'')]"
  have r: "new_row remdups (sample_article (Some ?authors))
      = Inr (sample_row ''Doe J, Poe E, Roe A, Zoe B'' ''Unit Y; Unit X'')"
    by (simp add: new_row_def and_then_def getitem_def sample_article_def sample_row_def
        sample_author_def author_name_def)
  have c: "[''Unit X'', ''Unit Y'', ''Unit X''] =
      map (\<lambda>a. the (Affiliation (hd (the (AffiliationInfo a)))))
        (filter (\<lambda>a. AffiliationInfo a \<noteq> None \<and> AffiliationInfo a \<noteq> Some []) ?authors)"
    by (simp add: sample_author_def)
  have "col_Affiliations (sample_row ''Doe J, Poe E, Roe A, Zoe B'' ''Unit Y; Unit X'')
      = join ''; '' (remdups [''Unit X'', ''Unit Y'', ''Unit X''])"
    using new_row_affiliations [OF set_iter_ok_remdups r _ _ _ c]
    by (simp add: sample_article_def)
  then show ?thesis using r set_iter_ok_remdups by simp
qed

text \<open>
  Claim C4. A record that has the keys \<open>PMID\<close>, \<open>ArticleTitle\<close>, \<open>AuthorList\<close> and the
  journal \<open>Title\<close>, and whose affiliation entries and subject headings, where present,
  carry their strings, always yields a row, whichever optional keys are absent. In that
  row \<open>Abstract\<close> is empty when the abstract is absent, \<open>Keywords\<close> is empty when the
  subject-heading list is absent, \<open>Affiliations\<close> is empty when no author has an
  affiliation entry, and \<open>Authors\<close> is empty when the author list is empty.
\<close>

theorem new_row_optional_defaults:
  assumes "set_iter_ok set_iter"
    and "MedlineCitation record = Some citation"
    and "PMID citation = Some pmid"
    and "Article citation = Some article"
    and "ArticleTitle article = Some title"
    and "AuthorList article = Some author_list"
    and "Journal article = Some journal_entry"
    and "Title journal_entry = Some journal"
    and "\<forall>a\<in>set author_list. \<forall>info infos.
           AffiliationInfo a = Some (info # infos) \<longrightarrow> Affiliation info \<noteq> None"
    and "\<forall>hs. MeshHeadingList citation = Some hs \<longrightarrow> (\<forall>h\<in>set hs. DescriptorName h \<noteq> None)"
  shows "\<exists>row. new_row set_iter record = Inr row
     \<and> (Abstract article = None \<longrightarrow> col_Abstract row = [])
     \<and> (MeshHeadingList citation = None \<longrightarrow> col_Keywords row = [])
     \<and> ((\<forall>a\<in>set author_list. AffiliationInfo a = None \<or> AffiliationInfo a = Some [])
          \<longrightarrow> col_Affiliations row = [])
     \<and> (author_list = [] \<longrightarrow> col_Authors row = [])"
proof -
  from affiliations_loop_total [OF assms(9)]
  obtain xs where xs: "affiliations_loop [] author_list = Inr xs" by blast
  define keywords_result where "keywords_result =
       (case MeshHeadingList citation of None \<Rightarrow> Inr []
        | Some headings \<Rightarrow> and_then (descriptor_names headings) (\<lambda>ds. Inr (join '', '' ds)))"
  have "\<exists>kw. keywords_result = Inr kw \<and> (MeshHeadingList citation = None \<longrightarrow> kw = [])"
  proof (cases "MeshHeadingList citation")
    case None
    then show ?thesis by (simp add: keywords_result_def)
  next
    case (Some hs)
    with assms(10) have "\<forall>h\<in>set hs. DescriptorName h \<noteq> None" by simp
    from descriptor_names_total [OF this] Some show ?thesis
      by (auto simp: and_then_def keywords_result_def)
  qed
  then obtain kw where kw: "keywords_result = Inr kw"
    and kw0: "MeshHeadingList citation = None \<longrightarrow> kw = []"
    by (elim exE conjE)
  let ?row = "\<lparr>col_PMID = pmid, col_Title = title,
       col_Abstract = (case Abstract article of None \<Rightarrow> []
          | Some a \<Rightarrow> (case AbstractText a of None \<Rightarrow> [] | Some ts \<Rightarrow> join '' '' ts)),
       col_Authors = join '', '' (map author_name author_list),
       col_Journal = journal, col_Keywords = kw,
       col_URL = ''https://www.ncbi.nlm.nih.gov/pubmed/'' @ pmid,
       col_Affiliations = join ''; '' (set_iter xs)\<rparr>"
  have row: "new_row set_iter record = Inr ?row"
    using assms(2-8) xs kw [unfolded keywords_result_def]
    by (simp add: new_row_def and_then_def getitem_def)
  have aff: "(\<forall>a\<in>set author_list. AffiliationInfo a = None \<or> AffiliationInfo a = Some [])
       \<longrightarrow> col_Affiliations ?row = []"
  proof
    assume "\<forall>a\<in>set author_list. AffiliationInfo a = None \<or> AffiliationInfo a = Some []"
    from affiliations_loop_none [OF this, of "[]"] xs have "xs = []" by simp
    with set_iter_ok_Nil [OF assms(1)] show "col_Affiliations ?row = []" by simp
  qed
  show ?thesis
  proof (rule exI [of _ ?row], intro conjI)
    show "new_row set_iter record = Inr ?row" by (rule row)
    show "Abstract article = None \<longrightarrow> col_Abstract ?row = []" by simp
    show "MeshHeadingList citation = None \<longrightarrow> col_Keywords ?row = []"
      using kw0 by simp
    show "(\<forall>a\<in>set author_list. AffiliationInfo a = None \<or> AffiliationInfo a = Some [])
       \<longrightarrow> col_Affiliations ?row = []" by (rule aff)
    show "author_list = [] \<longrightarrow> col_Authors ?row = []" by simp
  qed
qed

theorem new_row_optional_defaults_witness:
  "set_iter_ok remdups
   \<and> new_row remdups (sample_article (Some [sample_author ''Doe'' ''J'' None]))
       = Inr (sample_row ''Doe J'' [])
   \<and> col_Abstract (sample_row ''Doe J'' []) = []
   \<and> col_Keywords (sample_row ''Doe J'' []) = []
   \<and> col_Affiliations (sample_row ''Doe J'' []) = []
   \<and> new_row remdups (sample_article (Some [])) = Inr (sample_row [] [])
   \<and> col_Abstract (sample_row [] []) = []
   \<and> col_Keywords (sample_row [] []) = []
   \<and> col_Affiliations (sample_row [] []) = []
   \<and> col_Authors (sample_row [] []) = []"
proof -
  have row_of: "\<exists>row. new_row remdups (sample_article (Some authors)) = Inr row
        \<and> col_Abstract row = [] \<and> col_Keywords row = [] \<and> col_Affiliations row = []
        \<and> (authors = [] \<longrightarrow> col_Authors row = [])"
    if none: "\<forall>a\<in>set authors. AffiliationInfo a = None" for authors
  proof -
    let ?article = "\<lparr>ArticleTitle = Some ''Burn Patients: A Review!'', Abstract = None,
        AuthorList = Some authors, Journal = Some \<lparr>Title = Some ''Burns''\<rparr>\<rparr>"
    let ?citation = "\<lparr>PMID = Some ''123'', Article = Some ?article, MeshHeadingList = None\<rparr>"
    have 1: "MedlineCitation (sample_article (Some authors)) = Some ?citation"
      by (simp add: sample_article_def)
    have 2: "PMID ?citation = Some ''123''" by simp
    have 3: "Article ?citation = Some ?article" by simp
    have 4: "ArticleTitle ?article = Some ''Burn Patients: A Review!''" by simp
    have 5: "AuthorList ?article = Some authors" by simp
    have 6: "Journal ?article = Some \<lparr>Title = Some ''Burns''\<rparr>" by simp
    have 7: "Title \<lparr>Title = Some ''Burns''\<rparr> = Some ''Burns''" by simp
    have 8: "\<forall>a\<in>set authors. \<forall>info infos.
        AffiliationInfo a = Some (info # infos) \<longrightarrow> Affiliation info \<noteq> None"
      using none by simp
    have 9: "\<forall>hs. MeshHeadingList ?citation = Some hs \<longrightarrow> (\<forall>h\<in>set hs. DescriptorName h \<noteq> None)"
      by simp
    from new_row_optional_defaults [OF set_iter_ok_remdups 1 2 3 4 5 6 7 8 9] none
    show ?thesis by auto
  qed
  have a: "\<forall>a\<in>set [sample_author ''Doe'' ''J'' None]. AffiliationInfo a = None"
    by (simp add: sample_author_def)
  have b: "\<forall>a\<in>set ([] :: author_dict list). AffiliationInfo a = None" by simp
  have r: "new_row remdups (sample_article (Some [sample_author ''Doe'' ''J'' None]))
      = Inr (sample_row ''Doe J'' [])"
    by (simp add: new_row_def and_then_def getitem_def sample_article_def sample_row_def
        sample_author_def author_name_def)
  from row_of [OF a] r
  have "col_Abstract (sample_row ''Doe J'' []) = [] \<and> col_Keywords (sample_row ''Doe J'' []) = []
      \<and> col_Affiliations (sample_row ''Doe J'' []) = []"
    by auto
  moreover from row_of [OF b] new_row_sample
  have "col_Abstract (sample_row [] []) = [] \<and> col_Keywords (sample_row [] []) = []
      \<and> col_Affiliations (sample_row [] []) = [] \<and> col_Authors (sample_row [] []) = []"
    by auto
  ultimately show ?thesis using r new_row_sample set_iter_ok_remdups by simp
qed

section \<open>Properties of the dataset builder\<close>

text \<open>
  Claim C8. Building the dataset from a collection of \<open>N\<close> records yields \<open>N\<close> rows
  in the order of the records. First, the builder does return a frame whenever every
  record of the collection has the keys \<open>PMID\<close>, \<open>ArticleTitle\<close>, \<open>AuthorList\<close> and
  the journal \<open>Title\<close>, its affiliation entries and subject headings, where present,
  carry their strings, and the filesystem accepts the output directory and the tabular
  file. Second, whenever the builder returns a frame, the frame has as many rows as
  there are records, and the row at each position is the row derived from the record at
  that position.
\<close>

theorem create_publication_dataframe_rows:
  assumes "PubmedArticle records = Some articles"
  shows "((\<forall>r\<in>set articles. \<exists>citation article author_list journal_entry.
             MedlineCitation r = Some citation \<and> PMID citation \<noteq> None \<and>
             Article citation = Some article \<and> ArticleTitle article \<noteq> None \<and>
             AuthorList article = Some author_list \<and>
             Journal article = Some journal_entry \<and> Title journal_entry \<noteq> None \<and>
             (\<forall>a\<in>set author_list. \<forall>info infos.
                AffiliationInfo a = Some (info # infos) \<longrightarrow> Affiliation info \<noteq> None) \<and>
             (\<forall>hs. MeshHeadingList citation = Some hs \<longrightarrow>
                (\<forall>h\<in>set hs. DescriptorName h \<noteq> None)))
          \<and> (''outputs'' \<in> set (dirs fs)
               \<or> (map_of (files fs) ''outputs'' = None \<and> ''outputs'' \<notin> set (denied fs)))
          \<and> path_join ''outputs'' (now @ ''.csv'') \<notin> set (dirs fs)
          \<and> path_join ''outputs'' (now @ ''.csv'') \<notin> set (denied fs)
          \<longrightarrow> (\<exists>df. snd (create_publication_dataframe set_iter now fs records) = Inr df))
     \<and> (\<forall>df. snd (create_publication_dataframe set_iter now fs records) = Inr df \<longrightarrow>
            length (df_rows df) = length articles
            \<and> (\<forall>i<length articles. new_row set_iter (articles ! i) = Inr (df_rows df ! i)))"
proof (intro conjI impI allI)
  assume ok: "(\<forall>r\<in>set articles. \<exists>citation article author_list journal_entry.
             MedlineCitation r = Some citation \<and> PMID citation \<noteq> None \<and>
             Article citation = Some article \<and> ArticleTitle article \<noteq> None \<and>
             AuthorList article = Some author_list \<and>
             Journal article = Some journal_entry \<and> Title journal_entry \<noteq> None \<and>
             (\<forall>a\<in>set author_list. \<forall>info infos.
                AffiliationInfo a = Some (info # infos) \<longrightarrow> Affiliation info \<noteq> None) \<and>
             (\<forall>hs. MeshHeadingList citation = Some hs \<longrightarrow>
                (\<forall>h\<in>set hs. DescriptorName h \<noteq> None)))
          \<and> (''outputs'' \<in> set (dirs fs)
               \<or> (map_of (files fs) ''outputs'' = None \<and> ''outputs'' \<notin> set (denied fs)))
          \<and> path_join ''outputs'' (now @ ''.csv'') \<notin> set (dirs fs)
          \<and> path_join ''outputs'' (now @ ''.csv'') \<notin> set (denied fs)"
  have "\<exists>row. new_row set_iter r = Inr row" if "r \<in> set articles" for r
  proof -
    from ok that obtain citation article author_list journal_entry where
      "MedlineCitation r = Some citation" "PMID citation \<noteq> None"
      "Article citation = Some article" "ArticleTitle article \<noteq> None"
      "AuthorList article = Some author_list"
      "Journal article = Some journal_entry" "Title journal_entry \<noteq> None"
      "\<forall>a\<in>set author_list. \<forall>info infos.
          AffiliationInfo a = Some (info # infos) \<longrightarrow> Affiliation info \<noteq> None"
      "\<forall>hs. MeshHeadingList citation = Some hs \<longrightarrow> (\<forall>h\<in>set hs. DescriptorName h \<noteq> None)"
      by blast
    then show ?thesis by (rule new_row_total)
  qed
  then have "\<forall>r\<in>set articles. \<exists>row. new_row set_iter r = Inr row" by blast
  from dataframe_loop_total [OF this]
  obtain df where df: "dataframe_loop set_iter empty_dataframe articles = Inr df" by blast
  from ok export_accepted [of fs "now @ ''.csv''" "to_csv df"]
  obtain fs1 fs2 where "makedirs fs ''outputs'' = Inr fs1"
    and "write_file fs1 ''outputs'' (now @ ''.csv'') (to_csv df) = Inr fs2"
    by blast
  with df assms
  have "snd (create_publication_dataframe set_iter now fs records) = Inr df"
    by (simp add: create_publication_dataframe_def and_then_def getitem_def)
  then show "\<exists>df. snd (create_publication_dataframe set_iter now fs records) = Inr df"
    by (rule exI)
next
  fix df
  assume r: "snd (create_publication_dataframe set_iter now fs records) = Inr df"
  from create_publication_dataframe_Inr [OF r] assms
  have "dataframe_loop set_iter empty_dataframe articles = Inr df" by auto
  from dataframe_loop_rows [OF this]
  have m: "map (new_row set_iter) articles = map Inr (df_rows df)"
    by (simp add: empty_dataframe_def)
  then show len: "length (df_rows df) = length articles"
    by (metis length_map)
  fix i
  assume "i < length articles"
  with m len show "new_row set_iter (articles ! i) = Inr (df_rows df ! i)"
    by (metis nth_map)
qed

theorem create_publication_dataframe_rows_witness:
  "snd (create_publication_dataframe remdups ''202401010000'' fresh_fs
      \<lparr>PubmedArticle = Some [sample_article (Some [sample_author ''Doe'' ''J'' None]),
                             sample_article (Some []),
                             sample_article (Some [sample_author ''Roe'' ''A'' None])]\<rparr>)
     = Inr \<lparr>df_columns = publication_columns,
            df_rows = [sample_row ''Doe J'' [], sample_row [] [], sample_row ''Roe A'' []]\<rparr>
   \<and> length [sample_row ''Doe J'' [], sample_row [] [], sample_row ''Roe A'' []]
       = length [sample_article (Some [sample_author ''Doe'' ''J'' None]),
                 sample_article (Some []),
                 sample_article (Some [sample_author ''Roe'' ''A'' None])]
   \<and> new_row remdups (sample_article (Some [sample_author ''Doe'' ''J'' None]))
       = Inr (sample_row ''Doe J'' [])
   \<and> new_row remdups (sample_article (Some [])) = Inr (sample_row [] [])
   \<and> new_row remdups (sample_article (Some [sample_author ''Roe'' ''A'' None]))
       = Inr (sample_row ''Roe A'' [])"
proof -
  let ?articles = "[sample_article (Some [sample_author ''Doe'' ''J'' None]),
                    sample_article (Some []),
                    sample_article (Some [sample_author ''Roe'' ''A'' None])]"
  let ?records = "\<lparr>PubmedArticle = Some ?articles\<rparr>"
  let ?rows = "[sample_row ''Doe J'' [], sample_row [] [], sample_row ''Roe A'' []]"
  have p: "PubmedArticle ?records = Some ?articles" by simp
  note rows_fact = create_publication_dataframe_rows [OF p, of fresh_fs "''202401010000''" remdups]
  have valid: "\<forall>r\<in>set ?articles. \<exists>citation article author_list journal_entry.
             MedlineCitation r = Some citation \<and> PMID citation \<noteq> None \<and>
             Article citation = Some article \<and> ArticleTitle article \<noteq> None \<and>
             AuthorList article = Some author_list \<and>
             Journal article = Some journal_entry \<and> Title journal_entry \<noteq> None \<and>
             (\<forall>a\<in>set author_list. \<forall>info infos.
                AffiliationInfo a = Some (info # infos) \<longrightarrow> Affiliation info \<noteq> None) \<and>
             (\<forall>hs. MeshHeadingList citation = Some hs \<longrightarrow>
                (\<forall>h\<in>set hs. DescriptorName h \<noteq> None))"
    by (simp add: sample_article_def sample_author_def)
  have accepts: "(''outputs'' \<in> set (dirs fresh_fs)
        \<or> (map_of (files fresh_fs) ''outputs'' = None \<and> ''outputs'' \<notin> set (denied fresh_fs)))
      \<and> path_join ''outputs'' (''202401010000'' @ ''.csv'') \<notin> set (dirs fresh_fs)
      \<and> path_join ''outputs'' (''202401010000'' @ ''.csv'') \<notin> set (denied fresh_fs)"
    by (simp add: fresh_fs_def)
  from rows_fact valid accepts
  obtain df where df: "snd (create_publication_dataframe remdups ''202401010000'' fresh_fs
      ?records) = Inr df"
    by blast
  from rows_fact df
  have len: "length (df_rows df) = length ?articles"
    and nth: "\<forall>i<length ?articles. new_row remdups (?articles ! i) = Inr (df_rows df ! i)"
    by blast+
  from nth have n0: "new_row remdups (?articles ! 0) = Inr (df_rows df ! 0)"
    by (elim allE [of _ 0]) simp
  from nth have n1: "new_row remdups (?articles ! Suc 0) = Inr (df_rows df ! Suc 0)"
    by (elim allE [of _ "Suc 0"]) simp
  from nth have n2: "new_row remdups (?articles ! Suc (Suc 0)) = Inr (df_rows df ! Suc (Suc 0))"
    by (elim allE [of _ "Suc (Suc 0)"]) simp
  have c: "snd (create_publication_dataframe remdups ''202401010000'' fresh_fs ?records)
      = Inr \<lparr>df_columns = publication_columns, df_rows = ?rows\<rparr>"
    by (simp add: create_publication_dataframe_def and_then_def getitem_def new_row_def
        sample_article_def sample_author_def sample_row_def author_name_def pd_concat_def
        row_frame_def empty_dataframe_def makedirs_def write_file_def fresh_fs_def
        path_join_def publication_columns_def)
  with df have "df = \<lparr>df_columns = publication_columns, df_rows = ?rows\<rparr>" by simp
  with len n0 n1 n2 c show ?thesis by simp
qed

text \<open>
  Claim C10. The keys \<open>PMID\<close>, \<open>ArticleTitle\<close>, \<open>AuthorList\<close> and the journal \<open>Title\<close>
  are required: if any record of the collection lacks one of them (the key itself, or a
  mapping on the way to it), the builder raises a \<open>KeyError\<close>, returns no frame and
  leaves the filesystem as it was.
\<close>

theorem create_publication_dataframe_required_keys:
  assumes "PubmedArticle records = Some articles"
    and "record \<in> set articles"
    and "Option.bind (MedlineCitation record) PMID = None
     \<or> Option.bind (Option.bind (MedlineCitation record) Article) ArticleTitle = None
     \<or> Option.bind (Option.bind (MedlineCitation record) Article) AuthorList = None
     \<or> Option.bind (Option.bind (Option.bind (MedlineCitation record) Article) Journal) Title
          = None"
  shows "\<exists>k. create_publication_dataframe set_iter now fs records = (fs, Inl (KeyError k))"
proof -
  from new_row_missing_required [OF assms(3)]
  obtain e where "new_row set_iter record = Inl e" by blast
  from dataframe_loop_fails [OF assms(2) this]
  obtain e' where e': "dataframe_loop set_iter empty_dataframe articles = Inl e'" by blast
  from dataframe_loop_error_KeyError [OF e'] obtain k where "e' = KeyError k" by blast
  with e' assms(1) show ?thesis
    by (simp add: create_publication_dataframe_def and_then_def getitem_def)
qed

theorem create_publication_dataframe_required_keys_witness:
  "sample_article None \<in> set [sample_article (Some []), sample_article None]
   \<and> Option.bind (Option.bind (MedlineCitation (sample_article None)) Article) AuthorList = None
   \<and> create_publication_dataframe remdups ''202401010000'' fresh_fs
       \<lparr>PubmedArticle = Some [sample_article (Some []), sample_article None]\<rparr>
       = (fresh_fs, Inl (KeyError ''AuthorList''))"
proof -
  let ?articles = "[sample_article (Some []), sample_article None]"
  have p: "PubmedArticle \<lparr>PubmedArticle = Some ?articles\<rparr> = Some ?articles" by simp
  have m: "sample_article None \<in> set ?articles" by simp
  have k: "Option.bind (Option.bind (MedlineCitation (sample_article None)) Article) AuthorList
      = None"
    by (simp add: sample_article_def)
  then have d: "Option.bind (MedlineCitation (sample_article None)) PMID = None
     \<or> Option.bind (Option.bind (MedlineCitation (sample_article None)) Article) ArticleTitle
         = None
     \<or> Option.bind (Option.bind (MedlineCitation (sample_article None)) Article) AuthorList
         = None
     \<or> Option.bind (Option.bind (Option.bind (MedlineCitation (sample_article None)) Article)
          Journal) Title = None"
    by simp
  have n: "new_row remdups (sample_article None) = Inl (KeyError ''AuthorList'')"
    by (simp add: new_row_def and_then_def getitem_def sample_article_def)
  from create_publication_dataframe_required_keys [OF p m d, of remdups "''202401010000''" fresh_fs]
  obtain key where "create_publication_dataframe remdups ''202401010000'' fresh_fs
      \<lparr>PubmedArticle = Some ?articles\<rparr> = (fresh_fs, Inl (KeyError key))" by blast
  moreover have "snd (create_publication_dataframe remdups ''202401010000'' fresh_fs
      \<lparr>PubmedArticle = Some ?articles\<rparr>) = Inl (KeyError ''AuthorList'')"
    by (simp add: create_publication_dataframe_def and_then_def getitem_def new_row_sample n)
  ultimately show ?thesis using m k by simp
qed

text \<open>
  Claim C2, as the code has it. For an empty record collection the builder, when it
  returns, returns the frame with no column and no row; the tabular file it has written
  has an empty header and no data row; and the renderer, run on that frame, writes no
  document and raises nothing.
\<close>

theorem empty_collection_export:
  assumes "snd (create_publication_dataframe set_iter now fs \<lparr>PubmedArticle = Some []\<rparr>)
      = Inr df"
  shows "df = empty_dataframe \<and> df_columns df = [] \<and> df_rows df = []
     \<and> map_of (files (fst (create_publication_dataframe set_iter now fs
            \<lparr>PubmedArticle = Some []\<rparr>)))
          (path_join ''outputs'' (now @ ''.csv'')) = Some (Csv [] [])
     \<and> create_publication_markdown fs' df = (fs', None)"
proof -
  from create_publication_dataframe_Inr [OF assms]
  obtain fs1 where df: "dataframe_loop set_iter empty_dataframe [] = Inr df"
    and w: "write_file fs1 ''outputs'' (now @ ''.csv'') (to_csv df)
        = Inr (fst (create_publication_dataframe set_iter now fs \<lparr>PubmedArticle = Some []\<rparr>))"
    by auto
  from df have e: "df = empty_dataframe" by simp
  from write_file_lookup [OF w] e show ?thesis
    by (simp add: empty_dataframe_def to_csv_def create_publication_markdown_def)
qed

theorem empty_collection_export_witness:
  "snd (create_publication_dataframe remdups ''202401010000'' fresh_fs
      \<lparr>PubmedArticle = Some []\<rparr>) = Inr empty_dataframe
   \<and> map_of (files (fst (create_publication_dataframe remdups ''202401010000'' fresh_fs
          \<lparr>PubmedArticle = Some []\<rparr>))) ''outputs/202401010000.csv'' = Some (Csv [] [])
   \<and> create_publication_markdown outputs_fs empty_dataframe = (outputs_fs, None)"
proof -
  have r: "snd (create_publication_dataframe remdups ''202401010000'' fresh_fs
      \<lparr>PubmedArticle = Some []\<rparr>) = Inr empty_dataframe"
    by (simp add: create_publication_dataframe_def and_then_def getitem_def makedirs_def
        write_file_def fresh_fs_def path_join_def)
  from empty_collection_export [OF r, of outputs_fs] r show ?thesis
    by (simp add: path_join_def)
qed

text \<open>
  Claim C2 as the specification words it has the file hold the header row of the eight
  columns. On a fresh filesystem the file written for the empty collection has an empty
  header instead.
\<close>

theorem empty_collection_header_counterexample:
  "map_of (files (fst (create_publication_dataframe remdups ''202401010000'' fresh_fs
       \<lparr>PubmedArticle = Some []\<rparr>))) ''outputs/202401010000.csv'' = Some (Csv [] [])
   \<and> Csv [] [] \<noteq> Csv publication_columns []"
  by (simp add: create_publication_dataframe_def and_then_def getitem_def makedirs_def
      write_file_def fresh_fs_def path_join_def to_csv_def empty_dataframe_def
      publication_columns_def)

text \<open>
  Claim C3, as the code has it. Once the frame has been accumulated, the builder returns
  it exactly when creating the output directory and writing the file both succeed; an
  error raised by either is what the caller receives, in place of the frame.
\<close>

theorem export_result:
  assumes "PubmedArticle records = Some articles"
    and "dataframe_loop set_iter empty_dataframe articles = Inr df"
  shows "snd (create_publication_dataframe set_iter now fs records) =
     (case makedirs fs ''outputs'' of
        Inl e \<Rightarrow> Inl e
      | Inr fs1 \<Rightarrow>
          (case write_file fs1 ''outputs'' (now @ ''.csv'') (to_csv df) of
             Inl e \<Rightarrow> Inl e
           | Inr fs2 \<Rightarrow> Inr df))"
  using assms
  by (simp add: create_publication_dataframe_def and_then_def getitem_def Let_def
      split: sum.splits)

theorem export_result_witness:
  "dataframe_loop remdups empty_dataframe [sample_article (Some [])]
     = Inr (row_frame (sample_row [] []))
   \<and> snd (create_publication_dataframe remdups ''202401010000'' outputs_fs
        \<lparr>PubmedArticle = Some [sample_article (Some [])]\<rparr>) = Inr (row_frame (sample_row [] []))
   \<and> snd (create_publication_dataframe remdups ''202401010000'' readonly_fs
        \<lparr>PubmedArticle = Some [sample_article (Some [])]\<rparr>)
       = Inl (OSError ''outputs/202401010000.csv'')"
proof -
  let ?articles = "[sample_article (Some [])]"
  have p: "PubmedArticle \<lparr>PubmedArticle = Some ?articles\<rparr> = Some ?articles" by simp
  have l: "dataframe_loop remdups empty_dataframe ?articles = Inr (row_frame (sample_row [] []))"
    by (simp add: new_row_sample pd_concat_def row_frame_def empty_dataframe_def)
  from export_result [OF p l, of "''202401010000''" outputs_fs]
  have "snd (create_publication_dataframe remdups ''202401010000'' outputs_fs
        \<lparr>PubmedArticle = Some ?articles\<rparr>) = Inr (row_frame (sample_row [] []))"
    by (simp add: makedirs_def write_file_def outputs_fs_def path_join_def)
  moreover from export_result [OF p l, of "''202401010000''" readonly_fs]
  have "snd (create_publication_dataframe remdups ''202401010000'' readonly_fs
        \<lparr>PubmedArticle = Some ?articles\<rparr>) = Inl (OSError ''outputs/202401010000.csv'')"
    by (simp add: makedirs_def write_file_def readonly_fs_def path_join_def)
  ultimately show ?thesis using l by simp
qed

text \<open>
  Claim C3 as the specification words it has the caller receive the frame even when the
  file write raises. Where the path of the tabular file refuses the write, the frame has
  been accumulated, and the call ends in the error.
\<close>

theorem export_failure_counterexample:
  "dataframe_loop remdups empty_dataframe [sample_article (Some [])]
     = Inr (row_frame (sample_row [] []))
   \<and> write_file readonly_fs ''outputs'' ''202401010000.csv''
        (to_csv (row_frame (sample_row [] []))) = Inl (OSError ''outputs/202401010000.csv'')
   \<and> create_publication_dataframe remdups ''202401010000'' readonly_fs
        \<lparr>PubmedArticle = Some [sample_article (Some [])]\<rparr>
       = (readonly_fs, Inl (OSError ''outputs/202401010000.csv''))"
proof -
  have l: "dataframe_loop remdups empty_dataframe [sample_article (Some [])]
      = Inr (row_frame (sample_row [] []))"
    by (simp add: new_row_sample pd_concat_def row_frame_def empty_dataframe_def)
  have w: "write_file readonly_fs ''outputs'' ''202401010000.csv''
        (to_csv (row_frame (sample_row [] []))) = Inl (OSError ''outputs/202401010000.csv'')"
    by (simp add: write_file_def readonly_fs_def path_join_def)
  have m: "makedirs readonly_fs ''outputs'' = Inr readonly_fs"
    by (simp add: makedirs_def readonly_fs_def)
  show ?thesis
    by (simp add: l w m create_publication_dataframe_def and_then_def getitem_def
        del: dataframe_loop.simps)
qed

section \<open>Properties of the document renderer\<close>

text \<open>
  Claim C9. Removing the characters that the file name derivation removes is
  idempotent, and the title \<open>Burn Patients: A Review!\<close> gives the file name
  \<open>Burn Patients A Review.md\<close>.
\<close>

theorem sanitize_idempotent:
  "sanitize (sanitize s) = sanitize s
   \<and> markdown_filename (row\<lparr>col_Title := ''Burn Patients: A Review!''\<rparr>)
       = ''Burn Patients A Review.md''"
  by (simp add: sanitize_def markdown_filename_def is_ascii_alnum_def is_space_def)

text \<open>
  Claim C5, as the code has it. For a row whose title sanitizes to the empty string the
  file name is \<open>.md\<close>, and rendering that row writes the document to \<open>outputs/.md\<close>
  without raising whenever the filesystem accepts that path; the only error is the one
  of a filesystem that refuses the write.
\<close>

theorem empty_sanitized_title_document:
  assumes "sanitize (col_Title row) = []"
  shows "markdown_filename row = ''.md''
     \<and> create_publication_markdown fs \<lparr>df_columns = publication_columns, df_rows = [row]\<rparr> =
         (if ''outputs'' \<in> set (dirs fs) \<and> ''outputs/.md'' \<notin> set (dirs fs)
               \<and> ''outputs/.md'' \<notin> set (denied fs)
          then (fs\<lparr>files := (''outputs/.md'', Text (markdown_content row))
                         # filter (\<lambda>(p, _). p \<noteq> ''outputs/.md'') (files fs)\<rparr>, None)
          else (fs, Some (OSError ''outputs/.md'')))"
  using assms
  by (simp add: markdown_filename_def create_publication_markdown_def write_file_def
      path_join_def Let_def)

theorem empty_sanitized_title_document_witness:
  "sanitize (col_Title punctuation_row) = []
   \<and> markdown_filename punctuation_row = ''.md''
   \<and> create_publication_markdown outputs_fs
        \<lparr>df_columns = publication_columns, df_rows = [punctuation_row]\<rparr>
       = (outputs_fs\<lparr>files := [(''outputs/.md'', Text (markdown_content punctuation_row))]\<rparr>,
          None)"
proof -
  have s: "sanitize (col_Title punctuation_row) = []"
    by (simp add: punctuation_row_def sanitize_def is_ascii_alnum_def is_space_def)
  from empty_sanitized_title_document [OF s, of outputs_fs] s show ?thesis
    by (simp add: outputs_fs_def)
qed

text \<open>
  Claim C5 as the specification words it has the renderer fail on such a row. For the
  title \<open>?!...\<close> and an existing output directory the renderer raises nothing and the
  document is found at \<open>outputs/.md\<close>.
\<close>

theorem empty_sanitized_title_counterexample:
  "sanitize (col_Title punctuation_row) = []
   \<and> snd (create_publication_markdown outputs_fs
        \<lparr>df_columns = publication_columns, df_rows = [punctuation_row]\<rparr>) = None
   \<and> map_of (files (fst (create_publication_markdown outputs_fs
        \<lparr>df_columns = publication_columns, df_rows = [punctuation_row]\<rparr>))) ''outputs/.md''
       = Some (Text (markdown_content punctuation_row))"
  by (simp add: punctuation_row_def sanitize_def is_ascii_alnum_def is_space_def
      create_publication_markdown_def markdown_filename_def write_file_def path_join_def
      outputs_fs_def Let_def)

end
